theory Spec2Isabelle
  imports Complex_Main
begin

section \<open>The widget of cpuwidget.pyw\<close>

text \<open>
  The module holds one class, \<open>Widget\<close>, and five module-level configurables. The
  configurables are a record, so that a statement can range over every configuration;
  \<open>shipped_config\<close> holds the values written in the file.
\<close>

record config =
  ignore_pip_packages :: "string list"
  ignore_choco_packages :: "string list"
  pip_ignore_breaking_changes :: bool
  choco_ignore_breaking_changes :: bool
  hours_to_search_for_upgrades :: "int list"

definition shipped_config :: config where
  "shipped_config =
     \<lparr>ignore_pip_packages = [''zipp'', ''jedi'', ''readme-renderer'', ''pypdfium2''],
      ignore_choco_packages = [''nodejs.install'', ''nodejs'', ''msys2''],
      pip_ignore_breaking_changes = True,
      choco_ignore_breaking_changes = True,
      hours_to_search_for_upgrades = [22, 4, 10, 16]\<rparr>"

text \<open>
  The fields of \<open>Widget\<close> that the main loop, the theme callback and the two update
  workers read or write. (\<open>sec\<close>, \<open>fonts\<close>, \<open>active_guid\<close>, the regular
  expressions and the tray icon do not take part in what is verified below;
  \<open>flag22h\<close> and \<open>flag04h\<close> are assigned in the constructor and never read.)
\<close>

record widget =
  choco_update :: bool
  pip_update :: bool
  write_in_black :: bool
  lock :: bool

text \<open>
  The constructor: both update flags and the lock start false, and \<open>write_in_black\<close>
  is what \<open>darkdetect.isLight()\<close> answered. (Its last statement starts a first
  check, whose two workers run like those of any later check.)
\<close>

definition init_widget :: "bool \<Rightarrow> widget" where
  "init_widget is_light =
     \<lparr>choco_update = False, pip_update = False, write_in_black = is_light, lock = False\<rparr>"

datatype py_error = ValueError | FileNotFoundError

subsection \<open>The theme callback\<close>

text \<open>
  \<open>_darkdetect_callback(self, color)\<close>: \<open>color\<close> is the string darkdetect passes,
  \<open>'Light'\<close> or \<open>'Dark'\<close>; the body does not read it.
\<close>

definition darkdetect_callback :: "widget \<Rightarrow> string \<Rightarrow> widget" where
  "darkdetect_callback self color = self\<lparr>write_in_black := \<not> write_in_black self\<rparr>"

subsection \<open>Sampling and drawing\<close>

text \<open>
  Python's \<open>round(x)\<close> on a float is the nearest integer, a tie going to the even
  neighbour. A finite float is a rational number, so the reading is a \<open>real\<close> here
  (infinities and values that are not numbers, on which \<open>round\<close> raises, are left
  out).
\<close>

definition py_round :: "real \<Rightarrow> int" where
  "py_round x =
     (let f = \<lfloor>x\<rfloor>; d = x - of_int f
      in if d < 1 / 2 then f
         else if 1 / 2 < d then f + 1
         else if even f then f else f + 1)"

text \<open>
  What \<open>_get_image\<close> hands to \<open>draw.text\<close>: the number drawn, the font size, the
  anchor and the fill colour (the image itself is 32 by 32, transparent, and the text is
  anchored \<open>'mm'\<close>).
\<close>

record glyph =
  cpu_percent :: int
  font_size :: nat
  position :: "real \<times> real"
  colors_tuple :: "nat \<times> nat \<times> nat \<times> nat"

text \<open>Lines 220 to 237 of \<open>_get_image\<close>, from the rounded percentage on.\<close>

definition get_image_of :: "bool \<Rightarrow> int \<Rightarrow> glyph" where
  "get_image_of black pct =
     \<lparr>cpu_percent = pct,
      font_size = (if pct = 100 then 21 else 24),
      position = (if pct = 100 then (14, 14) else (18, 14)),
      colors_tuple =
        (if black \<and> pct < 50 then (0, 0, 0, 255)
         else if black \<and> pct < 75 then (230, 122, 5, 255)
         else if pct < 50 then (255, 255, 255, 255)
         else if pct < 75 then (255, 255, 0, 255)
         else (255, 0, 0, 255))\<rparr>"

text \<open>
  \<open>_get_image\<close>: \<open>reading\<close> is what \<open>psutil.cpu_percent(interval=self.sec)\<close>
  returned.
\<close>

definition get_image :: "widget \<Rightarrow> real \<Rightarrow> glyph" where
  "get_image self reading = get_image_of (write_in_black self) (py_round reading)"

subsection \<open>The main loop\<close>

text \<open>
  The two update flags are plain attributes that the worker threads write while the
  loop runs. All a worker ever does to the widget is one assignment, \<open>True\<close> to its
  own flag (line 296 or line 330).
\<close>

datatype worker_write = Choco_write | Pip_write

fun worker_writes :: "widget \<Rightarrow> worker_write list \<Rightarrow> widget" where
  "worker_writes self [] = self"
| "worker_writes self (Choco_write # ws) = worker_writes (self\<lparr>choco_update := True\<rparr>) ws"
| "worker_writes self (Pip_write # ws) = worker_writes (self\<lparr>pip_update := True\<rparr>) ws"

text \<open>
  What one pass through the body of \<open>while True\<close> meets: the hour that
  \<open>datetime.datetime.now()\<close> gives, the reading of the CPU counter, and the writes of
  workers, by the place where they land among the four statements of the loop that
  touch the flags: before the test of line 155, between that test and the assignment of
  line 159, between line 159 and the test of line 161, and between that test and the
  assignment of line 165. (Lines 167 to 176 neither read nor write the flags, so a
  write landing there is a write before line 155 of the next pass.)
\<close>

record tick =
  now_hour :: int
  reading_of :: real
  before_choco_test :: "worker_write list"
  before_choco_clear :: "worker_write list"
  before_pip_test :: "worker_write list"
  before_pip_clear :: "worker_write list"

text \<open>A tick during which no worker writes, and whether a tick is one.\<close>

definition plain_tick :: "int \<Rightarrow> real \<Rightarrow> tick" where
  "plain_tick h r =
     \<lparr>now_hour = h, reading_of = r, before_choco_test = [], before_choco_clear = [],
      before_pip_test = [], before_pip_clear = []\<rparr>"

definition quiet :: "tick \<Rightarrow> bool" where
  "quiet t =
     (before_choco_test t = [] \<and> before_choco_clear t = []
      \<and> before_pip_test t = [] \<and> before_pip_clear t = [])"

text \<open>
  \<open>icon.notify(message, title)\<close>, lines 155 to 165: each flag that is found set
  posts its notification and is then cleared, Chocolatey first. A flag found clear is
  not assigned.
\<close>

datatype notification = Notify string string

definition choco_note :: notification where
  "choco_note = Notify ''Chocolatey signs upgrades available'' ''Chocolatey''"

definition pip_note :: notification where
  "pip_note = Notify ''Pip signs upgrades available'' ''Pip''"

definition drain :: "widget \<Rightarrow> tick \<Rightarrow> widget \<times> notification list" where
  "drain self t =
     (let s0 = worker_writes self (before_choco_test t);
          (s1, n1) = (if choco_update s0
                      then ((worker_writes s0 (before_choco_clear t))\<lparr>choco_update := False\<rparr>,
                            [choco_note])
                      else (worker_writes s0 (before_choco_clear t), []));
          s2 = worker_writes s1 (before_pip_test t);
          (s3, n2) = (if pip_update s2
                      then ((worker_writes s2 (before_pip_clear t))\<lparr>pip_update := False\<rparr>,
                            [pip_note])
                      else (worker_writes s2 (before_pip_clear t), []))
      in (s3, n1 @ n2))"

text \<open>
  Lines 167 to 173: \<open>hour\<close> is \<open>datetime.datetime.now().hour\<close>; the boolean says
  whether \<open>_check_for_updates\<close> was called.
\<close>

definition schedule :: "config \<Rightarrow> widget \<Rightarrow> int \<Rightarrow> widget \<times> bool" where
  "schedule cfg self hour =
     (if hour \<in> set (hours_to_search_for_upgrades cfg)
      then (if \<not> lock self then (self\<lparr>lock := True\<rparr>, True) else (self, False))
      else (self\<lparr>lock := False\<rparr>, False))"

text \<open>
  One pass through the body of \<open>while True\<close>: what was notified, whether a check was
  started, and the image assigned to the icon.
\<close>

record pass =
  notified :: "notification list"
  checked :: bool
  icon :: glyph

definition mainloop_body :: "config \<Rightarrow> widget \<Rightarrow> tick \<Rightarrow> widget \<times> pass" where
  "mainloop_body cfg self t =
     (let (s1, ns) = drain self t;
          (s2, c) = schedule cfg s1 (now_hour t)
      in (s2, \<lparr>notified = ns, checked = c, icon = get_image s2 (reading_of t)\<rparr>))"

text \<open>
  The loop never returns by itself; its behaviour is the passes it makes. \<open>mainloop\<close>
  runs one pass for each tick of a finite list, which is any finite prefix of a run.
\<close>

fun mainloop :: "config \<Rightarrow> widget \<Rightarrow> tick list \<Rightarrow> widget \<times> pass list" where
  "mainloop cfg self [] = (self, [])"
| "mainloop cfg self (t # rest) =
     (let (s1, p) = mainloop_body cfg self t;
          (s2, ps) = mainloop cfg s1 rest
      in (s2, p # ps))"

subsection \<open>The string operations of Python that the workers use\<close>

text \<open>
  A \<open>char\<close> stands for a code point below 256. Among those, \<open>str.isspace\<close> holds of
  tab, line feed, vertical tab, form feed, carriage return, the four separators 28 to
  31, the space, and the code points 133 and 160; the decimal digits (\<open>\d\<close> in a
  pattern, and what \<open>int\<close> reads) are \<open>0\<close> to \<open>9\<close>.
\<close>

definition py_isspace :: "char \<Rightarrow> bool" where
  "py_isspace c = ((of_char c :: nat) \<in> set [9, 10, 11, 12, 13, 28, 29, 30, 31, 32, 133, 160])"

definition py_isdecimal :: "char \<Rightarrow> bool" where
  "py_isdecimal c = (48 \<le> (of_char c :: nat) \<and> (of_char c :: nat) \<le> 57)"

text \<open>
  \<open>line.split()\<close>: the maximal runs of characters that are not whitespace. \<open>w\<close> is
  the word being read.
\<close>

fun split_ws :: "string \<Rightarrow> string \<Rightarrow> string list" where
  "split_ws w [] = (if w = [] then [] else [w])"
| "split_ws w (c # cs) =
     (if py_isspace c then (if w = [] then split_ws [] cs else w # split_ws [] cs)
      else split_ws (w @ [c]) cs)"

definition py_split :: "string \<Rightarrow> string list" where
  "py_split line = split_ws [] line"

text \<open>
  \<open>line.split(sep)\<close> for a separator of one character: one field more than there are
  separators, empty fields included.
\<close>

fun split_at :: "char \<Rightarrow> string \<Rightarrow> string \<Rightarrow> string list" where
  "split_at sep w [] = [w]"
| "split_at sep w (c # cs) =
     (if c = sep then w # split_at sep [] cs else split_at sep (w @ [c]) cs)"

definition py_split_sep :: "char \<Rightarrow> string \<Rightarrow> string list" where
  "py_split_sep sep line = split_at sep [] line"

text \<open>\<open>s.find(c)\<close>: the index of the first \<open>c\<close>, or -1.\<close>

fun py_find :: "string \<Rightarrow> char \<Rightarrow> int" where
  "py_find [] c = -1"
| "py_find (x # xs) c =
     (if x = c then 0 else (let i = py_find xs c in if i < 0 then -1 else i + 1))"

text \<open>\<open>s[:n]\<close>: a negative \<open>n\<close> counts from the end.\<close>

definition py_slice_to :: "string \<Rightarrow> int \<Rightarrow> string" where
  "py_slice_to s n =
     (if n < 0 then take (nat (int (length s) + n)) s else take (nat n) s)"

text \<open>
  \<open>int(s)\<close>: whitespace is stripped at both ends; then an optional sign; then decimal
  digits, where a single underscore may stand between two digits. Anything else raises
  \<open>ValueError\<close>, and so do more than 4300 digits (the interpreter's default limit,
  which the program does not change; underscores and the sign are not counted). The
  whitespace \<open>int\<close> strips is narrower than \<open>str.isspace\<close>: the separators 28 to
  31 are not part of it.
\<close>

definition int_isspace :: "char \<Rightarrow> bool" where
  "int_isspace c = ((of_char c :: nat) \<in> set [9, 10, 11, 12, 13, 32, 133, 160])"

definition py_strip :: "string \<Rightarrow> string" where
  "py_strip s = rev (dropWhile int_isspace (rev (dropWhile int_isspace s)))"

definition int_max_str_digits :: nat where
  "int_max_str_digits = 4300"

fun digits_ok :: "bool \<Rightarrow> string \<Rightarrow> bool" where
  "digits_ok after_digit [] = after_digit"
| "digits_ok after_digit (c # cs) =
     (if py_isdecimal c then digits_ok True cs
      else if c = CHR ''_'' then after_digit \<and> digits_ok False cs
      else False)"

fun digits_value :: "int \<Rightarrow> string \<Rightarrow> int" where
  "digits_value acc [] = acc"
| "digits_value acc (c # cs) =
     (if c = CHR ''_'' then digits_value acc cs
      else digits_value (10 * acc + (of_char c - 48)) cs)"

definition py_int :: "string \<Rightarrow> py_error + int" where
  "py_int s =
     (let t = py_strip s;
          (neg, body) = (case t of
                           [] \<Rightarrow> (False, t)
                         | c # r \<Rightarrow> if c = CHR ''-'' then (True, r)
                                    else if c = CHR ''+'' then (False, r)
                                    else (False, t))
      in if digits_ok False body \<and> length (filter py_isdecimal body) \<le> int_max_str_digits
         then Inr (if neg then - digits_value 0 body else digits_value 0 body)
         else Inl ValueError)"

text \<open>
  \<open>self.version_re.match(s)\<close> for the pattern \<open>\d*\.\d*\.\d*\<close>: \<open>match\<close> anchors
  the pattern at the start of \<open>s\<close> only. A digit is never a dot, so the pattern matches
  exactly when the longest run of digits is followed by a dot, and the longest run of
  digits after that by another dot.
\<close>

definition version_re_match :: "string \<Rightarrow> bool" where
  "version_re_match s =
     (case dropWhile py_isdecimal s of
        [] \<Rightarrow> False
      | c # r \<Rightarrow> c = CHR ''.'' \<and>
          (case dropWhile py_isdecimal r of
             [] \<Rightarrow> False
           | d # r' \<Rightarrow> d = CHR ''.''))"

subsection \<open>The update workers\<close>

text \<open>
  The body of the \<open>for\<close> loop, lines 279 to 297 and again lines 313 to 331; the two
  copies differ in how the line is split and in the configurables they name. \<open>cols\<close>
  is the split line, which the assignment to four names unpacks. The result is the
  exception raised, or whether the flag is set (and the loop left).
\<close>

definition major_of :: "string \<Rightarrow> py_error + int" where
  "major_of version = py_int (py_slice_to version (py_find version CHR ''.''))"

definition scan_entry :: "string list \<Rightarrow> bool \<Rightarrow> string list \<Rightarrow> py_error + bool" where
  "scan_entry ignore_packages ignore_breaking_changes cols =
     (case cols of
        [name, version, latest, extra] \<Rightarrow>
          if name \<in> set ignore_packages then Inr False
          else if ignore_breaking_changes then
            (if \<not> (version_re_match version \<or> version_re_match latest) then Inr False
             else (case major_of version of
                     Inl e \<Rightarrow> Inl e
                   | Inr major_version \<Rightarrow>
                       (case major_of latest of
                          Inl e \<Rightarrow> Inl e
                        | Inr major_latest \<Rightarrow>
                            if major_latest > major_version then Inr False else Inr True)))
          else Inr True
      | _ \<Rightarrow> Inl ValueError)"

fun scan :: "(string \<Rightarrow> string list) \<Rightarrow> string list \<Rightarrow> bool \<Rightarrow> string list \<Rightarrow> py_error + bool" where
  "scan split ignore_packages ignore_breaking_changes [] = Inr False"
| "scan split ignore_packages ignore_breaking_changes (line # rest) =
     (case scan_entry ignore_packages ignore_breaking_changes (split line) of
        Inl e \<Rightarrow> Inl e
      | Inr True \<Rightarrow> Inr True
      | Inr False \<Rightarrow> scan split ignore_packages ignore_breaking_changes rest)"

text \<open>
  What starting the external command gives: the executable is not found, or the
  command ran and \<open>out.decode().splitlines()\<close> is the list of lines.
\<close>

datatype popen = NotFound | Communicate "string list"

text \<open>
  A worker is the target of a thread: it leaves the widget as it made it, and either
  returns (\<open>None\<close>) or ends with an exception that nothing catches.
\<close>

definition finish :: "widget \<Rightarrow> (widget \<Rightarrow> widget) \<Rightarrow> py_error + bool \<Rightarrow> widget \<times> py_error option" where
  "finish self set_flag r =
     (case r of
        Inl e \<Rightarrow> (self, Some e)
      | Inr True \<Rightarrow> (set_flag self, None)
      | Inr False \<Rightarrow> (self, None))"

definition check_pip_updates :: "config \<Rightarrow> widget \<Rightarrow> popen \<Rightarrow> widget \<times> py_error option" where
  "check_pip_updates cfg self p =
     (case p of
        NotFound \<Rightarrow> (self, Some FileNotFoundError)
      | Communicate output_list \<Rightarrow>
          finish self (\<lambda>s. s\<lparr>pip_update := True\<rparr>)
            (scan py_split (ignore_pip_packages cfg) (pip_ignore_breaking_changes cfg)
               (drop 2 output_list)))"

definition check_choco_updates :: "config \<Rightarrow> widget \<Rightarrow> popen \<Rightarrow> widget \<times> py_error option" where
  "check_choco_updates cfg self p =
     (case p of
        NotFound \<Rightarrow> (self, None)
      | Communicate output_list \<Rightarrow>
          finish self (\<lambda>s. s\<lparr>choco_update := True\<rparr>)
            (scan (py_split_sep CHR ''|'') (ignore_choco_packages cfg)
               (choco_ignore_breaking_changes cfg) output_list))"

text \<open>
  \<open>_check_for_updates\<close> starts the two workers as threads, Chocolatey first. Each
  writes one field of the widget, its own, and reads none that the other writes; the
  model runs them one after the other, and \<open>check_for_updates_order\<close> below shows that
  the other order gives the same.
\<close>

record checked_all =
  after :: widget
  choco_raised :: "py_error option"
  pip_raised :: "py_error option"

definition check_for_updates :: "config \<Rightarrow> widget \<Rightarrow> popen \<Rightarrow> popen \<Rightarrow> checked_all" where
  "check_for_updates cfg self choco pip =
     (let (s1, e1) = check_choco_updates cfg self choco;
          (s2, e2) = check_pip_updates cfg s1 pip
      in \<lparr>after = s2, choco_raised = e1, pip_raised = e2\<rparr>)"

subsection \<open>The scheduler the specification describes\<close>

text \<open>
  For comparison with \<open>schedule\<close>: one latch for each configured hour \<open>h\<close>, which goes
  from armed to fired, triggering a check, when the hour observed is \<open>h\<close>, and back to
  armed when the hour observed is not \<open>h\<close>.
\<close>

datatype latch = Armed | Fired

definition spec_latch_step :: "int \<Rightarrow> latch \<Rightarrow> int \<Rightarrow> latch \<times> bool" where
  "spec_latch_step h l hour =
     (case l of
        Armed \<Rightarrow> if hour = h then (Fired, True) else (Armed, False)
      | Fired \<Rightarrow> if hour \<noteq> h then (Armed, False) else (Fired, False))"

definition spec_latches_init :: "int list \<Rightarrow> (int \<times> latch) list" where
  "spec_latches_init hours = map (\<lambda>h. (h, Armed)) (remdups hours)"

definition spec_latches_step :: "(int \<times> latch) list \<Rightarrow> int \<Rightarrow> (int \<times> latch) list \<times> nat" where
  "spec_latches_step ls hour =
     (map (\<lambda>(h, l). (h, fst (spec_latch_step h l hour))) ls,
      length (filter (\<lambda>(h, l). snd (spec_latch_step h l hour)) ls))"

text \<open>The number of checks the latches trigger at each tick.\<close>

fun spec_latches_run :: "(int \<times> latch) list \<Rightarrow> int list \<Rightarrow> nat list" where
  "spec_latches_run ls [] = []"
| "spec_latches_run ls (hour # rest) =
     (let (ls', n) = spec_latches_step ls hour in n # spec_latches_run ls' rest)"

text \<open>
  No tick at a configured hour is directly followed by a tick at another configured
  hour.
\<close>

fun no_handover :: "int list \<Rightarrow> int list \<Rightarrow> bool" where
  "no_handover hours (a # b # rest) =
     ((a \<in> set hours \<and> b \<in> set hours \<longrightarrow> a = b) \<and> no_handover hours (b # rest))"
| "no_handover hours [a] = True"
| "no_handover hours [] = True"

section \<open>Theorems\<close>

lemma py_round_of_int: "py_round (of_int n) = n"
  by (simp add: py_round_def)

text \<open>
  C9. Whatever string the theme listener passes, and whatever the flag was, the callback
  leaves the flag negated and touches nothing else; two calls, with any two payloads,
  give the widget back as it was.
\<close>

theorem darkdetect_callback_toggles:
  "write_in_black (darkdetect_callback self color) = (\<not> write_in_black self)
   \<and> darkdetect_callback self color = darkdetect_callback self color'
   \<and> darkdetect_callback (darkdetect_callback self c1) c2 = self"
  by (simp add: darkdetect_callback_def)

text \<open>
  C6. For a percentage from 0 to 100, the font size is 21 and the anchor (14, 14)
  exactly when the percentage is 100; for any other percentage the font size is 24 and
  the anchor (18, 14).
\<close>

theorem get_image_font_size:
  assumes "0 \<le> pct" and "pct \<le> 100" and "py_round reading = pct"
  shows "(font_size (get_image self reading) = 21 \<longleftrightarrow> pct = 100)
         \<and> (position (get_image self reading) = (14, 14) \<longleftrightarrow> pct = 100)
         \<and> (pct \<noteq> 100 \<longrightarrow> font_size (get_image self reading) = 24
               \<and> position (get_image self reading) = (18, 14))"
  using assms by (simp add: get_image_def get_image_of_def)

theorem get_image_font_size_witness:
  "((0::int) \<le> 100 \<and> (100::int) \<le> 100 \<and> py_round 100 = 100)
   \<and> font_size (get_image (init_widget True) 100) = 21
   \<and> position (get_image (init_widget True) 100) = (14, 14)
   \<and> ((0::int) \<le> 37 \<and> (37::int) \<le> 100 \<and> py_round 37 = 37 \<and> (37::int) \<noteq> 100)
   \<and> font_size (get_image (init_widget True) 37) = 24
   \<and> position (get_image (init_widget True) 37) = (18, 14)"
proof -
  have r: "py_round 100 = 100" "py_round 37 = 37"
    using py_round_of_int [of 100] py_round_of_int [of 37] by simp_all
  show ?thesis
    using get_image_font_size [of 100 100 "init_widget True"]
      get_image_font_size [of 37 37 "init_widget True"] r
    by simp
qed

text \<open>
  C5, as the claim states it, fails: the flag that selects near-black and amber is
  \<open>write_in_black\<close>, which the constructor sets to \<open>darkdetect.isLight()\<close>, so
  these are the colours of the light theme. Under a dark theme 74 is drawn yellow, not
  amber, also when the theme became dark by an event; under a light theme 49 is drawn
  near-black, not near-white.
\<close>

theorem get_image_dark_theme:
  "colors_tuple (get_image (init_widget False) 74) = (255, 255, 0, 255)
   \<and> colors_tuple (get_image (darkdetect_callback (init_widget True) ''Dark'') 74)
       = (255, 255, 0, 255)
   \<and> colors_tuple (get_image (init_widget True) 49) = (0, 0, 0, 255)"
proof -
  have r: "py_round 74 = 74" "py_round 49 = 49"
    using py_round_of_int [of 74] py_round_of_int [of 49] by simp_all
  show ?thesis
    by (simp add: get_image_def get_image_of_def init_widget_def darkdetect_callback_def r)
qed

text \<open>
  C5, amended. For a percentage from 0 to 100 the fill colour is decided by the bucket
  of the percentage and by the flag \<open>write_in_black\<close>, which is true under a light
  theme (at construction it is what \<open>darkdetect.isLight()\<close> answers): below 50,
  near-black with the flag and near-white without; from 50 and below 75, amber with the
  flag and yellow without; from 75 on, red with or without it. In particular 49 without
  the flag is near-white, 50 without the flag is yellow, 74 with the flag is amber and
  75 with the flag is red.
\<close>

theorem get_image_colors:
  assumes "0 \<le> pct" and "pct \<le> 100" and "py_round reading = pct"
  shows "colors_tuple (get_image self reading) =
           (if pct < 50 then (if write_in_black self then (0, 0, 0, 255) else (255, 255, 255, 255))
            else if pct < 75 then (if write_in_black self then (230, 122, 5, 255) else (255, 255, 0, 255))
            else (255, 0, 0, 255))
         \<and> write_in_black (init_widget is_light) = is_light
         \<and> colors_tuple (get_image (self\<lparr>write_in_black := False\<rparr>) 49) = (255, 255, 255, 255)
         \<and> colors_tuple (get_image (self\<lparr>write_in_black := False\<rparr>) 50) = (255, 255, 0, 255)
         \<and> colors_tuple (get_image (self\<lparr>write_in_black := True\<rparr>) 74) = (230, 122, 5, 255)
         \<and> colors_tuple (get_image (self\<lparr>write_in_black := True\<rparr>) 75) = (255, 0, 0, 255)"
proof -
  have r: "py_round 49 = 49" "py_round 50 = 50" "py_round 74 = 74" "py_round 75 = 75"
    using py_round_of_int [of 49] py_round_of_int [of 50]
      py_round_of_int [of 74] py_round_of_int [of 75] by simp_all
  show ?thesis
    using assms by (simp add: get_image_def get_image_of_def init_widget_def r)
qed

theorem get_image_colors_witness:
  "((0::int) \<le> 74 \<and> (74::int) \<le> 100 \<and> py_round 74 = 74)
   \<and> colors_tuple (get_image (init_widget True) 74) = (230, 122, 5, 255)
   \<and> colors_tuple (get_image (init_widget False) 74) = (255, 255, 0, 255)"
proof -
  have r: "py_round 74 = 74"
    using py_round_of_int [of 74] by simp
  show ?thesis
    using get_image_colors [of 74 74 "init_widget True" True]
      get_image_colors [of 74 74 "init_widget False" False] r
    by (simp add: init_widget_def)
qed

subsection \<open>Rounding the reading\<close>

lemma py_round_near: "\<bar>of_int (py_round x) - x\<bar> \<le> 1 / 2"
  unfolding py_round_def Let_def by (auto; linarith)

lemma py_round_lower: "0 \<le> x \<Longrightarrow> 0 \<le> py_round x"
  unfolding py_round_def Let_def by (auto; linarith)

lemma py_round_upper:
  assumes "x \<le> 100"
  shows "py_round x \<le> 100"
proof -
  have f: "\<lfloor>x\<rfloor> \<le> 100"
    using assms by (simp add: floor_le_iff)
  show ?thesis
  proof (cases "\<lfloor>x\<rfloor> = 100")
    case True
    then have "x = 100" using assms by linarith
    then show ?thesis by (simp add: py_round_def)
  next
    case False
    then have "\<lfloor>x\<rfloor> + 1 \<le> 100" using f by linarith
    then show ?thesis
      unfolding py_round_def Let_def by auto
  qed
qed

lemma py_round_tie: "even (py_round (of_int n + 1 / 2))"
proof -
  have "\<lfloor>(of_int n :: real) + 1 / 2\<rfloor> = n"
    by linarith
  then show ?thesis
    by (simp add: py_round_def)
qed

text \<open>
  C8. The number drawn is the reading rounded to the nearest integer: it is at most one
  half away from the reading, whatever the reading, and even when the reading lies
  halfway between two integers. The counter reports a percentage, from 0 to 100; on
  every such reading the number drawn is an integer from 0 to 100, and it is the
  rounded reading clamped to that range (the rounding never leaves the range, so that
  \<open>_get_image\<close> needs no clamp and has none).
\<close>

theorem get_image_rounds:
  "\<bar>of_int (cpu_percent (get_image self reading)) - reading\<bar> \<le> 1 / 2
   \<and> (reading = of_int n + 1 / 2 \<longrightarrow> even (cpu_percent (get_image self reading)))
   \<and> (0 \<le> reading \<and> reading \<le> 100 \<longrightarrow>
        0 \<le> cpu_percent (get_image self reading)
        \<and> cpu_percent (get_image self reading) \<le> 100
        \<and> cpu_percent (get_image self reading) = max 0 (min 100 (py_round reading)))"
proof -
  have c: "cpu_percent (get_image self reading) = py_round reading"
    by (simp add: get_image_def get_image_of_def)
  have "0 \<le> py_round reading \<and> py_round reading \<le> 100
      \<and> py_round reading = max 0 (min 100 (py_round reading))"
    if "0 \<le> reading \<and> reading \<le> 100"
    using that py_round_lower [of reading] py_round_upper [of reading] by simp
  then show ?thesis
    unfolding c using py_round_near [of reading] py_round_tie [of n] by blast
qed

theorem get_image_rounds_witness:
  "((0::real) \<le> 199 / 2 \<and> (199::real) / 2 \<le> 100 \<and> (199::real) / 2 = of_int 99 + 1 / 2)
   \<and> cpu_percent (get_image (init_widget True) (199 / 2)) = 100
   \<and> max 0 (min 100 (py_round (199 / 2))) = 100"
proof -
  have "py_round (199 / 2) = 100"
    by (simp add: py_round_def)
  then show ?thesis
    using get_image_rounds [of "init_widget True" "199 / 2" 99]
    by (simp add: get_image_def get_image_of_def)
qed

subsection \<open>One pass of the loop, in closed form\<close>

lemma worker_writes_fields:
  "choco_update (worker_writes s ws) = (choco_update s \<or> Choco_write \<in> set ws)"
  "pip_update (worker_writes s ws) = (pip_update s \<or> Pip_write \<in> set ws)"
  "lock (worker_writes s ws) = lock s"
  "write_in_black (worker_writes s ws) = write_in_black s"
  by (induction s ws rule: worker_writes.induct) auto

lemma drain_notes:
  "snd (drain self t) =
     (if choco_update self \<or> Choco_write \<in> set (before_choco_test t) then [choco_note] else [])
     @ (if pip_update self
           \<or> Pip_write \<in> set (before_choco_test t @ before_choco_clear t @ before_pip_test t)
        then [pip_note] else [])"
  by (simp add: drain_def Let_def split_beta worker_writes_fields)

lemma drain_choco:
  "choco_update (fst (drain self t)) =
     (Choco_write \<in> set (before_pip_test t @ before_pip_clear t)
      \<or> (Choco_write \<in> set (before_choco_clear t)
         \<and> \<not> (choco_update self \<or> Choco_write \<in> set (before_choco_test t))))"
  by (auto simp add: drain_def Let_def split_beta worker_writes_fields)

lemma drain_pip:
  "pip_update (fst (drain self t)) =
     (Pip_write \<in> set (before_pip_clear t)
      \<and> \<not> (pip_update self
            \<or> Pip_write \<in> set (before_choco_test t @ before_choco_clear t @ before_pip_test t)))"
  by (auto simp add: drain_def Let_def split_beta worker_writes_fields)

lemma drain_frame:
  "lock (fst (drain self t)) = lock self"
  "write_in_black (fst (drain self t)) = write_in_black self"
  by (simp_all add: drain_def Let_def split_beta worker_writes_fields)

lemma schedule_eq:
  "schedule cfg self hour =
     (self\<lparr>lock := hour \<in> set (hours_to_search_for_upgrades cfg)\<rparr>,
      hour \<in> set (hours_to_search_for_upgrades cfg) \<and> \<not> lock self)"
  by (cases self) (simp add: schedule_def)

lemma mainloop_body_eq:
  "mainloop_body cfg self t =
     ((fst (drain self t))\<lparr>lock := now_hour t \<in> set (hours_to_search_for_upgrades cfg)\<rparr>,
      \<lparr>notified = snd (drain self t),
       checked = (now_hour t \<in> set (hours_to_search_for_upgrades cfg) \<and> \<not> lock self),
       icon = get_image self (reading_of t)\<rparr>)"
  by (simp add: mainloop_body_def split_beta schedule_eq get_image_def drain_frame)

lemma notes_differ: "choco_note \<noteq> pip_note"
  by (simp add: choco_note_def pip_note_def)

lemma mainloop_quiet:
  "\<forall>u \<in> set ts. quiet u \<Longrightarrow> \<not> choco_update self \<Longrightarrow> \<not> pip_update self \<Longrightarrow>
     map notified (snd (mainloop cfg self ts)) = replicate (length ts) []
     \<and> \<not> choco_update (fst (mainloop cfg self ts)) \<and> \<not> pip_update (fst (mainloop cfg self ts))"
proof (induction ts arbitrary: self)
  case Nil
  then show ?case by simp
next
  case (Cons t rest)
  let ?s = "fst (mainloop_body cfg self t)"
  have q: "quiet t" and qs: "\<forall>u \<in> set rest. quiet u"
    using Cons.prems(1) by simp_all
  have c: "\<not> choco_update ?s" and p: "\<not> pip_update ?s"
    using q by (simp_all add: mainloop_body_eq drain_choco drain_pip quiet_def)
  have n: "notified (snd (mainloop_body cfg self t)) = []"
    using q Cons.prems(2,3) by (simp add: mainloop_body_eq drain_notes quiet_def)
  show ?case
    using Cons.IH [OF qs c p] n by (simp add: split_beta)
qed

text \<open>
  C7, as the claim states it, fails: the flags are plain attributes, and the loop tests
  a flag in one statement and clears it in a later one. Two workers write the
  Chocolatey flag, the first before the test of line 155 and the second between that
  test and the assignment of line 159: the pass posts one notification and clears the
  flag, and the drain steps after the second worker's write post nothing.
\<close>

theorem drain_loses_write:
  "map notified (snd (mainloop shipped_config (init_widget True)
      [(plain_tick 12 10)\<lparr>before_choco_test := [Choco_write], before_choco_clear := [Choco_write]\<rparr>,
       plain_tick 12 10, plain_tick 12 10]))
     = [[choco_note], [], []]
   \<and> \<not> choco_update (fst (mainloop_body shipped_config (init_widget True)
      ((plain_tick 12 10)\<lparr>before_choco_test := [Choco_write], before_choco_clear := [Choco_write]\<rparr>)))"
  by (simp add: split_beta mainloop_body_eq drain_notes drain_choco drain_pip
      plain_tick_def init_widget_def)

text \<open>
  C7, amended. In every pass, whatever the workers write meanwhile, the loop posts
  exactly one notification for a flag that it finds set at its test (set before the
  pass, or by a write landing before the test) and none for a flag that it finds clear;
  a flag found set is cleared, and with it any write landing between the test and the
  clear, which gets no notification of its own; a flag found clear is not assigned, so
  a write landing after the test stays for the next pass. When no worker writes during
  the passes, the first pass posts one notification for each flag that was set, every
  later pass posts nothing, and both flags end clear.
\<close>

theorem mainloop_body_drains:
  "notified (snd (mainloop_body cfg self t)) =
     (if choco_update self \<or> Choco_write \<in> set (before_choco_test t) then [choco_note] else [])
     @ (if pip_update self
           \<or> Pip_write \<in> set (before_choco_test t @ before_choco_clear t @ before_pip_test t)
        then [pip_note] else [])
   \<and> choco_update (fst (mainloop_body cfg self t)) =
       (Choco_write \<in> set (before_pip_test t @ before_pip_clear t)
        \<or> (Choco_write \<in> set (before_choco_clear t)
           \<and> \<not> (choco_update self \<or> Choco_write \<in> set (before_choco_test t))))
   \<and> pip_update (fst (mainloop_body cfg self t)) =
       (Pip_write \<in> set (before_pip_clear t)
        \<and> \<not> (pip_update self
              \<or> Pip_write \<in> set (before_choco_test t @ before_choco_clear t @ before_pip_test t)))
   \<and> ((\<forall>u \<in> set (t # ts). quiet u) \<longrightarrow>
        map notified (snd (mainloop cfg self (t # ts))) =
          ((if choco_update self then [choco_note] else [])
           @ (if pip_update self then [pip_note] else [])) # replicate (length ts) []
        \<and> \<not> choco_update (fst (mainloop cfg self (t # ts)))
        \<and> \<not> pip_update (fst (mainloop cfg self (t # ts))))"
proof -
  have a: "notified (snd (mainloop_body cfg self t)) =
     (if choco_update self \<or> Choco_write \<in> set (before_choco_test t) then [choco_note] else [])
     @ (if pip_update self
           \<or> Pip_write \<in> set (before_choco_test t @ before_choco_clear t @ before_pip_test t)
        then [pip_note] else [])"
    by (simp add: mainloop_body_eq drain_notes)
  have b: "choco_update (fst (mainloop_body cfg self t)) =
       (Choco_write \<in> set (before_pip_test t @ before_pip_clear t)
        \<or> (Choco_write \<in> set (before_choco_clear t)
           \<and> \<not> (choco_update self \<or> Choco_write \<in> set (before_choco_test t))))"
    by (simp add: mainloop_body_eq drain_choco)
  have c: "pip_update (fst (mainloop_body cfg self t)) =
       (Pip_write \<in> set (before_pip_clear t)
        \<and> \<not> (pip_update self
              \<or> Pip_write \<in> set (before_choco_test t @ before_choco_clear t @ before_pip_test t)))"
    by (simp add: mainloop_body_eq drain_pip)
  have d: "map notified (snd (mainloop cfg self (t # ts))) =
          ((if choco_update self then [choco_note] else [])
           @ (if pip_update self then [pip_note] else [])) # replicate (length ts) []
        \<and> \<not> choco_update (fst (mainloop cfg self (t # ts)))
        \<and> \<not> pip_update (fst (mainloop cfg self (t # ts)))"
    if q: "\<forall>u \<in> set (t # ts). quiet u"
  proof -
    let ?s = "fst (mainloop_body cfg self t)"
    have qt: "quiet t" and qs: "\<forall>u \<in> set ts. quiet u"
      using q by simp_all
    have f: "\<not> choco_update ?s" "\<not> pip_update ?s"
      using qt b c by (simp_all add: quiet_def)
    have n: "notified (snd (mainloop_body cfg self t)) =
        (if choco_update self then [choco_note] else []) @ (if pip_update self then [pip_note] else [])"
      using qt a by (simp add: quiet_def)
    show ?thesis
      using mainloop_quiet [OF qs f, of cfg] n by (simp add: split_beta)
  qed
  show ?thesis
    using a b c d by blast
qed

theorem mainloop_body_drains_witness:
  "(quiet (plain_tick 22 7) \<and> quiet (plain_tick 22 8) \<and> quiet (plain_tick 23 9))
   \<and> map notified (snd (mainloop shipped_config ((init_widget True)\<lparr>pip_update := True\<rparr>)
        [plain_tick 22 7, plain_tick 22 8, plain_tick 23 9])) = [[pip_note], [], []]
   \<and> \<not> pip_update (fst (mainloop shipped_config ((init_widget True)\<lparr>pip_update := True\<rparr>)
        [plain_tick 22 7, plain_tick 22 8, plain_tick 23 9]))"
proof -
  have q: "\<forall>u \<in> set [plain_tick 22 7, plain_tick 22 8, plain_tick 23 9]. quiet u"
    by (simp add: quiet_def plain_tick_def)
  have i: "pip_update ((init_widget True)\<lparr>pip_update := True\<rparr>)"
    "\<not> choco_update ((init_widget True)\<lparr>pip_update := True\<rparr>)"
    by (simp_all add: init_widget_def)
  have "map notified (snd (mainloop shipped_config ((init_widget True)\<lparr>pip_update := True\<rparr>)
        [plain_tick 22 7, plain_tick 22 8, plain_tick 23 9])) =
          ((if choco_update ((init_widget True)\<lparr>pip_update := True\<rparr>) then [choco_note] else [])
           @ (if pip_update ((init_widget True)\<lparr>pip_update := True\<rparr>) then [pip_note] else []))
          # replicate (length [plain_tick 22 8, plain_tick 23 9]) []
        \<and> \<not> choco_update (fst (mainloop shipped_config ((init_widget True)\<lparr>pip_update := True\<rparr>)
        [plain_tick 22 7, plain_tick 22 8, plain_tick 23 9]))
        \<and> \<not> pip_update (fst (mainloop shipped_config ((init_widget True)\<lparr>pip_update := True\<rparr>)
        [plain_tick 22 7, plain_tick 22 8, plain_tick 23 9]))"
    using mainloop_body_drains [of shipped_config "(init_widget True)\<lparr>pip_update := True\<rparr>"
        "plain_tick 22 7" "[plain_tick 22 8, plain_tick 23 9]"] q
    by blast
  then show ?thesis
    using q i by (simp add: numeral_2_eq_2)
qed

subsection \<open>The scheduler\<close>

lemma mainloop_checked_nth:
  "i < length obs \<Longrightarrow>
     checked (snd (mainloop cfg self obs) ! i) =
       (now_hour (obs ! i) \<in> set (hours_to_search_for_upgrades cfg)
        \<and> (if i = 0 then \<not> lock self
           else now_hour (obs ! (i - 1)) \<notin> set (hours_to_search_for_upgrades cfg)))"
proof (induction obs arbitrary: self i)
  case Nil
  then show ?case by simp
next
  case (Cons o1 rest)
  show ?case
  proof (cases i)
    case 0
    then show ?thesis by (simp add: split_beta mainloop_body_eq)
  next
    case (Suc j)
    then have j: "j < length rest" using Cons.prems by simp
    show ?thesis
      using Cons.IH [OF j, of "fst (mainloop_body cfg self o1)"] Suc
      by (cases j) (simp_all add: split_beta mainloop_body_eq drain_frame)
  qed
qed

lemma count_in_distinct:
  "distinct xs \<Longrightarrow> length (filter (\<lambda>h. P h \<and> x = h) xs) = (if x \<in> set xs \<and> P x then 1 else 0)"
  by (induction xs) auto

lemma latches_count:
  "length (filter (\<lambda>(h, l). snd (spec_latch_step h l hour))
     (map (\<lambda>h. (h, if h = p then Fired else Armed)) xs))
   = length (filter (\<lambda>h. h \<noteq> p \<and> hour = h) xs)"
  by (induction xs) (simp_all add: spec_latch_step_def)

lemma latches_next:
  "map (\<lambda>(h, l). (h, fst (spec_latch_step h l hour)))
     (map (\<lambda>h. (h, if h = p then Fired else Armed)) xs)
   = map (\<lambda>h. (h, if h = hour then Fired else Armed)) xs"
  by (induction xs) (simp_all add: spec_latch_step_def)

lemma spec_latches_step_eq:
  "spec_latches_step (map (\<lambda>h. (h, if h = p then Fired else Armed)) (remdups hours)) hour =
     (map (\<lambda>h. (h, if h = hour then Fired else Armed)) (remdups hours),
      if hour \<in> set hours \<and> hour \<noteq> p then 1 else 0)"
proof -
  have "length (filter (\<lambda>h. h \<noteq> p \<and> hour = h) (remdups hours))
        = (if hour \<in> set hours \<and> hour \<noteq> p then 1 else 0)"
    using count_in_distinct [of "remdups hours" "\<lambda>h. h \<noteq> p" hour] by simp
  then show ?thesis
    unfolding spec_latches_step_def latches_count latches_next by simp
qed

lemma schedule_latches_from:
  assumes "lock self = (p \<in> set (hours_to_search_for_upgrades cfg))"
    and "no_handover (hours_to_search_for_upgrades cfg) (p # map now_hour obs)"
  shows "map (\<lambda>q. if checked q then 1 else 0) (snd (mainloop cfg self obs)) =
           spec_latches_run
             (map (\<lambda>h. (h, if h = p then Fired else Armed))
                (remdups (hours_to_search_for_upgrades cfg)))
             (map now_hour obs)"
  using assms
proof (induction obs arbitrary: self p)
  case Nil
  then show ?case by simp
next
  case (Cons o1 rest)
  let ?H = "hours_to_search_for_upgrades cfg"
  let ?s = "fst (mainloop_body cfg self o1)"
  have hand: "p \<in> set ?H \<and> now_hour o1 \<in> set ?H \<longrightarrow> p = now_hour o1"
    and rest: "no_handover ?H (now_hour o1 # map now_hour rest)"
    using Cons.prems(2) by simp_all
  have lk: "lock ?s = (now_hour o1 \<in> set ?H)"
    by (simp add: mainloop_body_eq)
  have tail: "map (\<lambda>q. if checked q then 1 else 0) (snd (mainloop cfg ?s rest)) =
      spec_latches_run (map (\<lambda>h. (h, if h = now_hour o1 then Fired else Armed)) (remdups ?H))
        (map now_hour rest)"
    by (rule Cons.IH [OF lk rest])
  have head: "(if checked (snd (mainloop_body cfg self o1)) then 1 else 0) =
      (if now_hour o1 \<in> set ?H \<and> now_hour o1 \<noteq> p then 1 else (0::nat))"
    using hand Cons.prems(1) by (auto simp add: mainloop_body_eq)
  show ?case
    using tail head by (simp add: split_beta spec_latches_step_eq)
qed

text \<open>
  C1, as the claim states it, fails: the loop keeps one lock for all configured hours,
  not a latch for each. With the hours 4 and 5 configured and the clock passing from 4
  to 5, the loop starts a check at 4 and none at 5, where the latch of hour 5 would
  fire.
\<close>

theorem schedule_adjacent_hours:
  "map checked
     (snd (mainloop (shipped_config\<lparr>hours_to_search_for_upgrades := [4, 5]\<rparr>) (init_widget True)
        [plain_tick 4 10, plain_tick 4 10, plain_tick 5 10, plain_tick 5 10]))
     = [True, False, False, False]
   \<and> spec_latches_run (spec_latches_init [4, 5]) [4, 4, 5, 5] = [1, 0, 1, 0]"
  by (simp add: split_beta mainloop_body_eq drain_frame plain_tick_def init_widget_def
      shipped_config_def spec_latches_init_def spec_latches_step_def spec_latch_step_def)

text \<open>
  C1, amended. Starting unlocked, the loop starts a check in a pass exactly when the
  hour it reads is configured and the hour read by the pass before was not (or there was
  no pass before): one check at the first tick of each maximal run of ticks at
  configured hours, whichever they are. On every sequence of ticks in which no tick at a
  configured hour is directly followed by a tick at another configured hour, this is
  what one latch for each configured hour does.
\<close>

theorem schedule_single_latch:
  assumes "\<not> lock self"
  shows "(\<forall>i < length obs.
            checked (snd (mainloop cfg self obs) ! i) =
              (now_hour (obs ! i) \<in> set (hours_to_search_for_upgrades cfg)
               \<and> (i = 0 \<or> now_hour (obs ! (i - 1)) \<notin> set (hours_to_search_for_upgrades cfg))))
         \<and> (no_handover (hours_to_search_for_upgrades cfg) (map now_hour obs) \<longrightarrow>
              map (\<lambda>q. if checked q then 1 else 0) (snd (mainloop cfg self obs)) =
                spec_latches_run (spec_latches_init (hours_to_search_for_upgrades cfg))
                  (map now_hour obs))"
proof -
  let ?H = "hours_to_search_for_upgrades cfg"
  have first: "\<forall>i < length obs.
      checked (snd (mainloop cfg self obs) ! i) =
        (now_hour (obs ! i) \<in> set ?H \<and> (i = 0 \<or> now_hour (obs ! (i - 1)) \<notin> set ?H))"
    using assms by (auto simp add: mainloop_checked_nth)
  obtain p where p: "p \<notin> set ?H"
    using ex_new_if_finite [of "set ?H"] infinite_UNIV_int by auto
  have init: "spec_latches_init ?H = map (\<lambda>h. (h, if h = p then Fired else Armed)) (remdups ?H)"
    using p by (auto simp add: spec_latches_init_def)
  have second: "map (\<lambda>q. if checked q then 1 else 0) (snd (mainloop cfg self obs)) =
      spec_latches_run (spec_latches_init ?H) (map now_hour obs)"
    if nh: "no_handover ?H (map now_hour obs)"
  proof -
    have "no_handover ?H (p # map now_hour obs)"
      using nh p by (cases obs) simp_all
    then show ?thesis
      using schedule_latches_from [of self p cfg obs] assms p init by simp
  qed
  show ?thesis
    using first second by blast
qed

theorem schedule_single_latch_witness:
  "(\<not> lock (init_widget True)
    \<and> no_handover (hours_to_search_for_upgrades shipped_config) [22, 22, 23, 4])
   \<and> map checked (snd (mainloop shipped_config (init_widget True)
        [plain_tick 22 10, plain_tick 22 10, plain_tick 23 10, plain_tick 4 10]))
       = [True, False, False, True]
   \<and> spec_latches_run (spec_latches_init (hours_to_search_for_upgrades shipped_config))
        [22, 22, 23, 4] = [1, 0, 0, 1]"
proof -
  let ?obs = "[plain_tick 22 10, plain_tick 22 10, plain_tick 23 10, plain_tick 4 10]"
  have a: "\<not> lock (init_widget True)"
    by (simp add: init_widget_def)
  have m: "map now_hour ?obs = [22, 22, 23, 4]"
    by (simp add: plain_tick_def)
  have b: "no_handover (hours_to_search_for_upgrades shipped_config) [22, 22, 23, 4]"
    by (simp add: shipped_config_def)
  have c: "map checked (snd (mainloop shipped_config (init_widget True) ?obs))
       = [True, False, False, True]"
    by (simp add: split_beta mainloop_body_eq drain_frame plain_tick_def init_widget_def
        shipped_config_def)
  have "no_handover (hours_to_search_for_upgrades shipped_config) (map now_hour ?obs) \<longrightarrow>
      map (\<lambda>q. if checked q then 1 else 0) (snd (mainloop shipped_config (init_widget True) ?obs)) =
        spec_latches_run (spec_latches_init (hours_to_search_for_upgrades shipped_config))
          (map now_hour ?obs)"
    using schedule_single_latch [OF a, of ?obs shipped_config] by blast
  then have "map (\<lambda>q. if checked q then 1 else 0) (snd (mainloop shipped_config (init_widget True) ?obs)) =
        spec_latches_run (spec_latches_init (hours_to_search_for_upgrades shipped_config)) [22, 22, 23, 4]"
    unfolding m using b by blast
  moreover have "map (\<lambda>q. if checked q then 1 else 0) (snd (mainloop shipped_config (init_widget True) ?obs))
      = map (\<lambda>b. if b then 1 else (0::nat)) (map checked (snd (mainloop shipped_config (init_widget True) ?obs)))"
    unfolding map_map o_def ..
  ultimately have d: "spec_latches_run (spec_latches_init (hours_to_search_for_upgrades shipped_config))
        [22, 22, 23, 4] = [1, 0, 0, 1]"
    unfolding c by simp
  show ?thesis
    using a b c d by blast
qed

subsection \<open>The rows used below, split and read\<close>

lemma pip_rows:
  "py_split ''foo 1.2.3 1.3.0 wheel'' = [''foo'', ''1.2.3'', ''1.3.0'', ''wheel'']"
  "py_split ''foo 1.2.3 2.0.0 wheel'' = [''foo'', ''1.2.3'', ''2.0.0'', ''wheel'']"
  "py_split ''foo 1.2.3 1.9.9 wheel'' = [''foo'', ''1.2.3'', ''1.9.9'', ''wheel'']"
  "py_split ''foo .9.1 0.9.2 wheel'' = [''foo'', ''.9.1'', ''0.9.2'', ''wheel'']"
  "py_split ''foo 7 7.0.1 wheel'' = [''foo'', ''7'', ''7.0.1'', ''wheel'']"
  "py_split ''foo 1.2.3'' = [''foo'', ''1.2.3'']"
  by code_simp+

lemma choco_rows:
  "py_split_sep CHR ''|'' ''foo|1.2.3|1.3.0|false'' = [''foo'', ''1.2.3'', ''1.3.0'', ''false'']"
  "py_split_sep CHR ''|'' ''foo|1.2.3|2.0.0|false'' = [''foo'', ''1.2.3'', ''2.0.0'', ''false'']"
  "py_split_sep CHR ''|'' ''foo|1.2.3|1.9.9|false'' = [''foo'', ''1.2.3'', ''1.9.9'', ''false'']"
  "py_split_sep CHR ''|'' ''foo|.9.1|0.9.2|false'' = [''foo'', ''.9.1'', ''0.9.2'', ''false'']"
  "py_split_sep CHR ''|'' ''foo|7|7.0.1|false'' = [''foo'', ''7'', ''7.0.1'', ''false'']"
  "py_split_sep CHR ''|'' ''foo|1.2.3|1.2.4'' = [''foo'', ''1.2.3'', ''1.2.4'']"
  by code_simp+

lemma more_rows:
  "py_split ''zipp 3.0.0 3.1.0 wheel'' = [''zipp'', ''3.0.0'', ''3.1.0'', ''wheel'']"
  "py_split_sep CHR ''|'' ''msys2|1.0.0|1.0.1|false'' = [''msys2'', ''1.0.0'', ''1.0.1'', ''false'']"
  "\<not> version_re_match ''8''" "\<not> version_re_match ''rolling''"
  by code_simp+

lemma version_matches:
  "version_re_match ''1.2.3''" "version_re_match ''0.9.2''" "version_re_match ''7.0.1''"
  "version_re_match ''..''" "version_re_match ''.9.1''" "\<not> version_re_match ''7''"
  by code_simp+

lemma majors:
  "major_of ''1.2.3'' = Inr 1" "major_of ''1.3.0'' = Inr 1" "major_of ''2.0.0'' = Inr 2"
  "major_of ''1.9.9'' = Inr 1" "major_of ''.9.1'' = Inl ValueError" "major_of ''7'' = Inl ValueError"
  "major_of ''0.9.2'' = Inr 0" "major_of ''7.0.1'' = Inr 7" "major_of ''12'' = Inr 1"
  by code_simp+

lemma entries:
  "scan_entry [] True [''foo'', ''1.2.3'', ''1.3.0'', x] = Inr True"
  "scan_entry [] True [''foo'', ''1.2.3'', ''2.0.0'', x] = Inr False"
  "scan_entry [] True [''foo'', ''1.2.3'', ''1.9.9'', x] = Inr True"
  by (simp_all add: scan_entry_def version_matches majors)

lemma major_of_raises: "major_of v = Inl e \<Longrightarrow> e = ValueError"
  by (auto simp add: major_of_def py_int_def Let_def split: prod.splits if_splits)

subsection \<open>The workers\<close>

lemma scan_entry_malformed: "length cols \<noteq> 4 \<Longrightarrow> scan_entry ignore ib cols = Inl ValueError"
  unfolding scan_entry_def by (auto split: list.splits)

lemma scan_skips:
  "\<forall>l \<in> set before. scan_entry ignore ib (split l) = Inr False \<Longrightarrow>
     scan split ignore ib (before @ rest) = scan split ignore ib rest"
  by (induction before) simp_all

lemma scan_malformed:
  assumes "\<forall>l \<in> set before. scan_entry ignore ib (split l) = Inr False"
    and "length (split bad) \<noteq> 4"
  shows "scan split ignore ib (before @ bad # rest) = Inl ValueError"
  using scan_skips [OF assms(1), of "bad # rest"] scan_entry_malformed [OF assms(2), of ignore ib]
  by simp

lemma check_pip_updates_frame:
  "choco_update (fst (check_pip_updates cfg self p)) = choco_update self"
  by (simp add: check_pip_updates_def finish_def split: popen.splits sum.splits bool.splits)

lemma check_choco_updates_frame:
  "pip_update (fst (check_choco_updates cfg self p)) = pip_update self"
  by (simp add: check_choco_updates_def finish_def split: popen.splits sum.splits bool.splits)

lemma check_for_updates_eq:
  "check_for_updates cfg self choco pip =
     \<lparr>after = fst (check_pip_updates cfg (fst (check_choco_updates cfg self choco)) pip),
      choco_raised = snd (check_choco_updates cfg self choco),
      pip_raised = snd (check_pip_updates cfg (fst (check_choco_updates cfg self choco)) pip)\<rparr>"
  by (simp add: check_for_updates_def split_beta)

lemma check_for_updates_order:
  "check_for_updates cfg self choco pip =
     (let (s1, e2) = check_pip_updates cfg self pip;
          (s2, e1) = check_choco_updates cfg s1 choco
      in \<lparr>after = s2, choco_raised = e1, pip_raised = e2\<rparr>)"
  by (cases self)
    (simp add: check_for_updates_def check_pip_updates_def check_choco_updates_def finish_def
      split: popen.splits sum.splits bool.splits)

lemma check_pip_updates_malformed:
  assumes "drop 2 pip_lines = before @ bad # rest"
    and "\<forall>l \<in> set before. scan_entry (ignore_pip_packages cfg) (pip_ignore_breaking_changes cfg)
           (py_split l) = Inr False"
    and "length (py_split bad) \<noteq> 4"
  shows "check_pip_updates cfg self (Communicate pip_lines) = (self, Some ValueError)"
  using scan_malformed [OF assms(2,3), of rest] assms(1)
  by (simp add: check_pip_updates_def finish_def)

lemma check_choco_updates_malformed:
  assumes "\<forall>l \<in> set before. scan_entry (ignore_choco_packages cfg) (choco_ignore_breaking_changes cfg)
           (py_split_sep CHR ''|'' l) = Inr False"
    and "length (py_split_sep CHR ''|'' bad) \<noteq> 4"
  shows "check_choco_updates cfg self (Communicate (before @ bad # rest)) = (self, Some ValueError)"
  using scan_malformed [OF assms(1,2), of rest]
  by (simp add: check_choco_updates_def finish_def)

text \<open>
  C2, as the claim states it, fails at its first entry: from 1.2.3 to 1.3.0 the major
  version does not grow, so the entry is not skipped and the flag is set, for pip and
  for Chocolatey alike.
\<close>

theorem same_major_sets_flag:
  "pip_update (fst (check_pip_updates
         (shipped_config\<lparr>ignore_pip_packages := [], ignore_choco_packages := []\<rparr>) (init_widget True)
         (Communicate [''Package Version Latest Type'', ''------- ------- ------ -----'',
                       ''foo 1.2.3 1.3.0 wheel''])))
   \<and> choco_update (fst (check_choco_updates
         (shipped_config\<lparr>ignore_pip_packages := [], ignore_choco_packages := []\<rparr>) (init_widget True)
         (Communicate [''foo|1.2.3|1.3.0|false''])))"
  by (simp add: check_pip_updates_def check_choco_updates_def finish_def
      pip_rows choco_rows entries shipped_config_def)

text \<open>
  C2, amended. With breaking changes ignored and nothing in the ignore set, a list
  holding only the entry foo 1.2.3 1.3.0 sets the flag; only the entry foo 1.2.3 2.0.0
  leaves the flag and the rest of the widget as they were; only the entry
  foo 1.2.3 1.9.9 sets the flag. The same holds of both workers (for pip, after the two
  heading lines, whatever they are).
\<close>

theorem breaking_change_filter:
  assumes "pip_ignore_breaking_changes cfg" and "ignore_pip_packages cfg = []"
    and "choco_ignore_breaking_changes cfg" and "ignore_choco_packages cfg = []"
  shows "check_pip_updates cfg self (Communicate [h1, h2, ''foo 1.2.3 1.3.0 wheel''])
           = (self\<lparr>pip_update := True\<rparr>, None)
         \<and> check_pip_updates cfg self (Communicate [h1, h2, ''foo 1.2.3 2.0.0 wheel''])
           = (self, None)
         \<and> check_pip_updates cfg self (Communicate [h1, h2, ''foo 1.2.3 1.9.9 wheel''])
           = (self\<lparr>pip_update := True\<rparr>, None)
         \<and> check_choco_updates cfg self (Communicate [''foo|1.2.3|1.3.0|false''])
           = (self\<lparr>choco_update := True\<rparr>, None)
         \<and> check_choco_updates cfg self (Communicate [''foo|1.2.3|2.0.0|false''])
           = (self, None)
         \<and> check_choco_updates cfg self (Communicate [''foo|1.2.3|1.9.9|false''])
           = (self\<lparr>choco_update := True\<rparr>, None)"
  using assms
  by (simp add: check_pip_updates_def check_choco_updates_def finish_def
      pip_rows choco_rows entries)

theorem breaking_change_filter_witness:
  "(pip_ignore_breaking_changes (shipped_config\<lparr>ignore_pip_packages := [], ignore_choco_packages := []\<rparr>)
    \<and> ignore_pip_packages (shipped_config\<lparr>ignore_pip_packages := [], ignore_choco_packages := []\<rparr>) = []
    \<and> choco_ignore_breaking_changes (shipped_config\<lparr>ignore_pip_packages := [], ignore_choco_packages := []\<rparr>)
    \<and> ignore_choco_packages (shipped_config\<lparr>ignore_pip_packages := [], ignore_choco_packages := []\<rparr>) = [])
   \<and> pip_update (fst (check_pip_updates
         (shipped_config\<lparr>ignore_pip_packages := [], ignore_choco_packages := []\<rparr>) (init_widget True)
         (Communicate [''Package Version Latest Type'', ''------- ------- ------ -----'',
                       ''foo 1.2.3 1.9.9 wheel''])))
   \<and> \<not> pip_update (fst (check_pip_updates
         (shipped_config\<lparr>ignore_pip_packages := [], ignore_choco_packages := []\<rparr>) (init_widget True)
         (Communicate [''Package Version Latest Type'', ''------- ------- ------ -----'',
                       ''foo 1.2.3 2.0.0 wheel''])))"
  using breaking_change_filter [of "shipped_config\<lparr>ignore_pip_packages := [], ignore_choco_packages := []\<rparr>"
      "init_widget True" "''Package Version Latest Type''" "''------- ------- ------ -----''"]
  by (simp add: shipped_config_def init_widget_def)

text \<open>
  C3, as the claim states it, fails for pip: \<open>_check_pip_updates\<close> starts the
  command outside any \<open>try\<close>, so when the executable is missing the worker ends with
  \<open>FileNotFoundError\<close>.
\<close>

theorem missing_pip_raises:
  "snd (check_pip_updates shipped_config (init_widget True) NotFound) \<noteq> None"
  by (simp add: check_pip_updates_def)

text \<open>
  C3, amended. When \<open>choco\<close> is missing, the Chocolatey worker returns without an
  error and leaves the widget, its flag included, as it was. When \<open>pip\<close> is missing,
  the pip worker leaves the widget as it was too, but ends with
  \<open>FileNotFoundError\<close>, which nothing in the worker catches.
\<close>

theorem missing_tool:
  "check_choco_updates cfg self NotFound = (self, None)
   \<and> check_pip_updates cfg self NotFound = (self, Some FileNotFoundError)
   \<and> check_for_updates cfg self NotFound NotFound =
       \<lparr>after = self, choco_raised = None, pip_raised = Some FileNotFoundError\<rparr>"
  by (simp add: check_for_updates_def check_pip_updates_def check_choco_updates_def)

text \<open>
  C4. When the scan of one worker reaches a line that does not split into four fields
  (every line before it having been skipped), that worker ends with \<open>ValueError\<close>
  and its flag is as it was before the check, hence false if it was false; the flag of
  the other worker, and the exception it ends with if any, are what that worker computes
  from its own output alone. This holds with pip reaching the line, whatever Chocolatey
  produced, and with Chocolatey reaching it, whatever pip produced.
\<close>

theorem malformed_line_is_local:
  "(drop 2 pip_lines = before @ bad # rest
    \<and> (\<forall>l \<in> set before. scan_entry (ignore_pip_packages cfg) (pip_ignore_breaking_changes cfg)
           (py_split l) = Inr False)
    \<and> length (py_split bad) \<noteq> 4
    \<longrightarrow> pip_raised (check_for_updates cfg self choco (Communicate pip_lines)) = Some ValueError
        \<and> pip_update (after (check_for_updates cfg self choco (Communicate pip_lines)))
            = pip_update self
        \<and> choco_update (after (check_for_updates cfg self choco (Communicate pip_lines)))
            = choco_update (fst (check_choco_updates cfg self choco))
        \<and> choco_raised (check_for_updates cfg self choco (Communicate pip_lines))
            = snd (check_choco_updates cfg self choco))
   \<and> ((\<forall>l \<in> set before'. scan_entry (ignore_choco_packages cfg) (choco_ignore_breaking_changes cfg)
           (py_split_sep CHR ''|'' l) = Inr False)
    \<and> length (py_split_sep CHR ''|'' bad') \<noteq> 4
    \<longrightarrow> choco_raised (check_for_updates cfg self (Communicate (before' @ bad' # rest')) pip)
            = Some ValueError
        \<and> choco_update (after (check_for_updates cfg self (Communicate (before' @ bad' # rest')) pip))
            = choco_update self
        \<and> pip_update (after (check_for_updates cfg self (Communicate (before' @ bad' # rest')) pip))
            = pip_update (fst (check_pip_updates cfg self pip))
        \<and> pip_raised (check_for_updates cfg self (Communicate (before' @ bad' # rest')) pip)
            = snd (check_pip_updates cfg self pip))"
proof (intro conjI impI)
  assume a: "drop 2 pip_lines = before @ bad # rest
    \<and> (\<forall>l \<in> set before. scan_entry (ignore_pip_packages cfg) (pip_ignore_breaking_changes cfg)
           (py_split l) = Inr False)
    \<and> length (py_split bad) \<noteq> 4"
  let ?s = "fst (check_choco_updates cfg self choco)"
  have p: "check_pip_updates cfg ?s (Communicate pip_lines) = (?s, Some ValueError)"
    using a check_pip_updates_malformed [of pip_lines before bad rest cfg ?s] by blast
  show "pip_raised (check_for_updates cfg self choco (Communicate pip_lines)) = Some ValueError"
    by (simp add: check_for_updates_eq p)
  show "pip_update (after (check_for_updates cfg self choco (Communicate pip_lines))) = pip_update self"
    by (simp add: check_for_updates_eq p check_choco_updates_frame)
  show "choco_update (after (check_for_updates cfg self choco (Communicate pip_lines)))
      = choco_update (fst (check_choco_updates cfg self choco))"
    by (simp add: check_for_updates_eq p)
  show "choco_raised (check_for_updates cfg self choco (Communicate pip_lines))
      = snd (check_choco_updates cfg self choco)"
    by (simp add: check_for_updates_eq)
next
  assume a: "(\<forall>l \<in> set before'. scan_entry (ignore_choco_packages cfg) (choco_ignore_breaking_changes cfg)
           (py_split_sep CHR ''|'' l) = Inr False)
    \<and> length (py_split_sep CHR ''|'' bad') \<noteq> 4"
  have c: "check_choco_updates cfg self (Communicate (before' @ bad' # rest')) = (self, Some ValueError)"
    using a check_choco_updates_malformed [of before' cfg bad' self rest'] by blast
  show "choco_raised (check_for_updates cfg self (Communicate (before' @ bad' # rest')) pip)
      = Some ValueError"
    by (simp add: check_for_updates_eq c)
  show "choco_update (after (check_for_updates cfg self (Communicate (before' @ bad' # rest')) pip))
      = choco_update self"
    by (simp add: check_for_updates_eq c check_pip_updates_frame)
  show "pip_update (after (check_for_updates cfg self (Communicate (before' @ bad' # rest')) pip))
      = pip_update (fst (check_pip_updates cfg self pip))"
    by (simp add: check_for_updates_eq c)
  show "pip_raised (check_for_updates cfg self (Communicate (before' @ bad' # rest')) pip)
      = snd (check_pip_updates cfg self pip)"
    by (simp add: check_for_updates_eq c)
qed

theorem malformed_line_is_local_witness:
  "(drop 2 [''Package Version Latest Type'', ''------- ------- ------ -----'',
            ''zipp 3.0.0 3.1.0 wheel'', ''foo 1.2.3'']
      = [''zipp 3.0.0 3.1.0 wheel''] @ ''foo 1.2.3'' # []
    \<and> scan_entry (ignore_pip_packages shipped_config) (pip_ignore_breaking_changes shipped_config)
        (py_split ''zipp 3.0.0 3.1.0 wheel'') = Inr False
    \<and> length (py_split ''foo 1.2.3'') \<noteq> 4)
   \<and> pip_raised (check_for_updates shipped_config (init_widget True)
        (Communicate [''foo|1.2.3|1.9.9|false''])
        (Communicate [''Package Version Latest Type'', ''------- ------- ------ -----'',
                      ''zipp 3.0.0 3.1.0 wheel'', ''foo 1.2.3''])) = Some ValueError
   \<and> \<not> pip_update (after (check_for_updates shipped_config (init_widget True)
        (Communicate [''foo|1.2.3|1.9.9|false''])
        (Communicate [''Package Version Latest Type'', ''------- ------- ------ -----'',
                      ''zipp 3.0.0 3.1.0 wheel'', ''foo 1.2.3''])))
   \<and> choco_update (after (check_for_updates shipped_config (init_widget True)
        (Communicate [''foo|1.2.3|1.9.9|false''])
        (Communicate [''Package Version Latest Type'', ''------- ------- ------ -----'',
                      ''zipp 3.0.0 3.1.0 wheel'', ''foo 1.2.3''])))
   \<and> (scan_entry (ignore_choco_packages shipped_config) (choco_ignore_breaking_changes shipped_config)
        (py_split_sep CHR ''|'' ''msys2|1.0.0|1.0.1|false'') = Inr False
    \<and> length (py_split_sep CHR ''|'' ''foo|1.2.3|1.2.4'') \<noteq> 4)
   \<and> choco_raised (check_for_updates shipped_config (init_widget True)
        (Communicate ([''msys2|1.0.0|1.0.1|false''] @ ''foo|1.2.3|1.2.4'' # []))
        (Communicate [''Package Version Latest Type'', ''------- ------- ------ -----'',
                      ''foo 1.2.3 1.9.9 wheel''])) = Some ValueError
   \<and> \<not> choco_update (after (check_for_updates shipped_config (init_widget True)
        (Communicate ([''msys2|1.0.0|1.0.1|false''] @ ''foo|1.2.3|1.2.4'' # []))
        (Communicate [''Package Version Latest Type'', ''------- ------- ------ -----'',
                      ''foo 1.2.3 1.9.9 wheel''])))
   \<and> pip_update (after (check_for_updates shipped_config (init_widget True)
        (Communicate ([''msys2|1.0.0|1.0.1|false''] @ ''foo|1.2.3|1.2.4'' # []))
        (Communicate [''Package Version Latest Type'', ''------- ------- ------ -----'',
                      ''foo 1.2.3 1.9.9 wheel''])))"
proof -
  let ?h1 = "''Package Version Latest Type''" and ?h2 = "''------- ------- ------ -----''"
  let ?pip_bad = "[?h1, ?h2, ''zipp 3.0.0 3.1.0 wheel'', ''foo 1.2.3'']"
  let ?pip_good = "[?h1, ?h2, ''foo 1.2.3 1.9.9 wheel'']"
  let ?choco_good = "[''foo|1.2.3|1.9.9|false'']"
  have d: "drop 2 ?pip_bad = [''zipp 3.0.0 3.1.0 wheel''] @ ''foo 1.2.3'' # []"
    by simp
  have z: "scan_entry (ignore_pip_packages shipped_config) (pip_ignore_breaking_changes shipped_config)
        (py_split ''zipp 3.0.0 3.1.0 wheel'') = Inr False"
    by (simp add: more_rows scan_entry_def shipped_config_def)
  have l: "length (py_split ''foo 1.2.3'') \<noteq> 4"
    by (simp add: pip_rows)
  have m: "scan_entry (ignore_choco_packages shipped_config) (choco_ignore_breaking_changes shipped_config)
        (py_split_sep CHR ''|'' ''msys2|1.0.0|1.0.1|false'') = Inr False"
    by (simp add: more_rows scan_entry_def shipped_config_def)
  have k: "length (py_split_sep CHR ''|'' ''foo|1.2.3|1.2.4'') \<noteq> 4"
    by (simp add: choco_rows)
  have cg: "check_choco_updates shipped_config (init_widget True) (Communicate ?choco_good)
      = ((init_widget True)\<lparr>choco_update := True\<rparr>, None)"
    by (simp add: check_choco_updates_def finish_def choco_rows scan_entry_def
        version_matches majors shipped_config_def)
  have pg: "check_pip_updates shipped_config (init_widget True) (Communicate ?pip_good)
      = ((init_widget True)\<lparr>pip_update := True\<rparr>, None)"
    by (simp add: check_pip_updates_def finish_def pip_rows scan_entry_def
        version_matches majors shipped_config_def)
  have i: "\<not> pip_update (init_widget True)" "\<not> choco_update (init_widget True)"
    by (simp_all add: init_widget_def)
  have first: "pip_raised (check_for_updates shipped_config (init_widget True)
        (Communicate ?choco_good) (Communicate ?pip_bad)) = Some ValueError
     \<and> pip_update (after (check_for_updates shipped_config (init_widget True)
        (Communicate ?choco_good) (Communicate ?pip_bad))) = pip_update (init_widget True)
     \<and> choco_update (after (check_for_updates shipped_config (init_widget True)
        (Communicate ?choco_good) (Communicate ?pip_bad)))
       = choco_update (fst (check_choco_updates shipped_config (init_widget True) (Communicate ?choco_good)))"
    using malformed_line_is_local [of ?pip_bad "[''zipp 3.0.0 3.1.0 wheel'']" "''foo 1.2.3''" "[]"
        shipped_config "init_widget True" "Communicate ?choco_good"] d z l
    by simp
  have second: "choco_raised (check_for_updates shipped_config (init_widget True)
        (Communicate ([''msys2|1.0.0|1.0.1|false''] @ ''foo|1.2.3|1.2.4'' # []))
        (Communicate ?pip_good)) = Some ValueError
     \<and> choco_update (after (check_for_updates shipped_config (init_widget True)
        (Communicate ([''msys2|1.0.0|1.0.1|false''] @ ''foo|1.2.3|1.2.4'' # []))
        (Communicate ?pip_good))) = choco_update (init_widget True)
     \<and> pip_update (after (check_for_updates shipped_config (init_widget True)
        (Communicate ([''msys2|1.0.0|1.0.1|false''] @ ''foo|1.2.3|1.2.4'' # []))
        (Communicate ?pip_good)))
       = pip_update (fst (check_pip_updates shipped_config (init_widget True) (Communicate ?pip_good)))"
    using malformed_line_is_local [of _ _ _ _ shipped_config "init_widget True" _
        "[''msys2|1.0.0|1.0.1|false'']" "''foo|1.2.3|1.2.4''" "[]" "Communicate ?pip_good"] m k
    by simp
  show ?thesis
    using first second d z l m k i by (simp only: cg pg fst_conv widget.simps) simp
qed

text \<open>
  C10. With breaking changes ignored, an entry of four fields whose name is not ignored
  is skipped by the pattern guard when neither version matches the pattern; as soon as
  one of them matches, the major version is read from both, and the entry raises
  \<open>ValueError\<close> when either reading fails. The pattern accepts empty numeric
  components (it matches two dots alone). So with the shipped configuration both
  workers end with \<open>ValueError\<close>, the widget unchanged, on the single entry
  foo .9.1 0.9.2 (no digit before the first dot) and on the single entry foo 7 7.0.1 (no
  dot at all in the current version).
\<close>

theorem lax_guard_raises:
  "(name \<notin> set ignore \<and> (version_re_match version \<or> version_re_match latest)
      \<and> (major_of version = Inl ValueError \<or> major_of latest = Inl ValueError)
      \<longrightarrow> scan_entry ignore True [name, version, latest, extra] = Inl ValueError)
   \<and> (name \<notin> set ignore \<and> \<not> version_re_match version \<and> \<not> version_re_match latest
      \<longrightarrow> scan_entry ignore True [name, version, latest, extra] = Inr False)
   \<and> version_re_match ''..''
   \<and> check_pip_updates shipped_config self (Communicate [h1, h2, ''foo .9.1 0.9.2 wheel''])
       = (self, Some ValueError)
   \<and> check_pip_updates shipped_config self (Communicate [h1, h2, ''foo 7 7.0.1 wheel''])
       = (self, Some ValueError)
   \<and> check_choco_updates shipped_config self (Communicate [''foo|.9.1|0.9.2|false''])
       = (self, Some ValueError)
   \<and> check_choco_updates shipped_config self (Communicate [''foo|7|7.0.1|false''])
       = (self, Some ValueError)"
proof -
  have g1: "scan_entry ignore True [name, version, latest, extra] = Inl ValueError"
    if "name \<notin> set ignore \<and> (version_re_match version \<or> version_re_match latest)
      \<and> (major_of version = Inl ValueError \<or> major_of latest = Inl ValueError)"
  proof (cases "major_of version")
    case (Inl e)
    then show ?thesis
      using that major_of_raises [OF Inl] by (auto simp add: scan_entry_def)
  next
    case (Inr major_version)
    then have "major_of latest = Inl ValueError" using that by auto
    then show ?thesis
      using that Inr by (auto simp add: scan_entry_def)
  qed
  have g2: "scan_entry ignore True [name, version, latest, extra] = Inr False"
    if "name \<notin> set ignore \<and> \<not> version_re_match version \<and> \<not> version_re_match latest"
    using that by (simp add: scan_entry_def)
  have e: "scan_entry (ignore_pip_packages shipped_config) True [''foo'', ''.9.1'', ''0.9.2'', x] = Inl ValueError"
    "scan_entry (ignore_pip_packages shipped_config) True [''foo'', ''7'', ''7.0.1'', x] = Inl ValueError"
    "scan_entry (ignore_choco_packages shipped_config) True [''foo'', ''.9.1'', ''0.9.2'', x] = Inl ValueError"
    "scan_entry (ignore_choco_packages shipped_config) True [''foo'', ''7'', ''7.0.1'', x] = Inl ValueError"
    for x
    by (simp_all add: scan_entry_def version_matches majors shipped_config_def)
  have b: "pip_ignore_breaking_changes shipped_config" "choco_ignore_breaking_changes shipped_config"
    by (simp_all add: shipped_config_def)
  have p1: "check_pip_updates shipped_config self (Communicate [h1, h2, ''foo .9.1 0.9.2 wheel''])
       = (self, Some ValueError)"
    by (simp add: check_pip_updates_def finish_def pip_rows e b)
  have p2: "check_pip_updates shipped_config self (Communicate [h1, h2, ''foo 7 7.0.1 wheel''])
       = (self, Some ValueError)"
    by (simp add: check_pip_updates_def finish_def pip_rows e b)
  have c1: "check_choco_updates shipped_config self (Communicate [''foo|.9.1|0.9.2|false''])
       = (self, Some ValueError)"
    by (simp add: check_choco_updates_def finish_def choco_rows e b)
  have c2: "check_choco_updates shipped_config self (Communicate [''foo|7|7.0.1|false''])
       = (self, Some ValueError)"
    by (simp add: check_choco_updates_def finish_def choco_rows e b)
  show ?thesis
    using g1 g2 version_matches(4) p1 p2 c1 c2 by blast
qed

theorem lax_guard_raises_witness:
  "(''foo'' \<notin> set (ignore_pip_packages shipped_config)
    \<and> version_re_match ''7.0.1'' \<and> major_of ''7'' = Inl ValueError)
   \<and> scan_entry (ignore_pip_packages shipped_config) True [''foo'', ''7'', ''7.0.1'', ''wheel'']
       = Inl ValueError
   \<and> (\<not> version_re_match ''rolling'' \<and> \<not> version_re_match ''8'')
   \<and> scan_entry (ignore_pip_packages shipped_config) True [''foo'', ''rolling'', ''8'', ''wheel'']
       = Inr False"
proof -
  have a: "''foo'' \<notin> set (ignore_pip_packages shipped_config)"
    by (simp add: shipped_config_def)
  show ?thesis
    using a version_matches(3) majors(6) more_rows(3,4)
      lax_guard_raises [of "''foo''" "ignore_pip_packages shipped_config" "''7''" "''7.0.1''" "''wheel''"]
      lax_guard_raises [of "''foo''" "ignore_pip_packages shipped_config" "''rolling''" "''8''" "''wheel''"]
    by blast
qed

end
